theory Spec2Isabelle
  imports Complex_Main
begin

section \<open>The projected lattice-parameter environment \<open>LatticeParametersSGCCG\<close>\<close>

text \<open>
  A shallow embedding of the class \<open>LatticeParametersSGCCG\<close> of
  \<^verbatim>\<open>gflownet/envs/crystals/lattice_parameters.py\<close>. Python floats are real numbers (no
  NaN, no infinity). The rounding that each floating-point operation of the two affine maps
  between state space and projection space performs is a parameter \<open>fl\<close> of the model:
  \<open>fl = id\<close> reads the arithmetic exactly, \<open>fl = round_double\<close> is the rounding of IEEE
  binary64, which is what the code runs on. The maps between projection space and
  lattice parameters go through \<open>scipy\<close> and are read over the reals; no property below
  depends on the numbers they produce. Every exception the methods can raise
  is a value of type \<open>error\<close>, returned on the left of a sum. Private method names lose
  their leading underscore (\<open>_step\<close> is \<open>step\<close>, \<open>_setup_constraints\<close> is
  \<open>setup_constraints\<close>), since an Isabelle name starts with a letter.
\<close>

subsection \<open>Errors and Python values\<close>

datatype error =
    ValueError string
  | TypeError string
  | IndexError
  | ZeroDivisionError

text \<open>Sequencing of fallible computations: the first exception raised wins.\<close>

definition and_then :: "error + 'a \<Rightarrow> ('a \<Rightarrow> error + 'b) \<Rightarrow> error + 'b" where
  "and_then r f = (case r of Inl e \<Rightarrow> Inl e | Inr x \<Rightarrow> f x)"

fun sequence :: "(error + 'a) list \<Rightarrow> error + 'a list" where
  "sequence [] = Inr []"
| "sequence (r # rs) =
     (case r of Inl e \<Rightarrow> Inl e
      | Inr x \<Rightarrow> (case sequence rs of Inl e \<Rightarrow> Inl e | Inr xs \<Rightarrow> Inr (x # xs)))"

text \<open>\<open>xs[i]\<close> for a non-negative index: IndexError out of range.\<close>

definition py_index :: "'a list \<Rightarrow> nat \<Rightarrow> error + 'a" where
  "py_index xs i = (if i < length xs then Inr (xs ! i) else Inl IndexError)"

subsection \<open>Floating-point rounding\<close>

text \<open>
  Rounding to the nearest binary64 number, ties to even: a number is scaled so that its
  significand has 53 bits (fewer in the subnormal range, where the exponent stops at
  \<open>-1074\<close>), rounded to an integer and scaled back. Overflow to infinity is not modelled.
\<close>

definition pow2 :: "int \<Rightarrow> real" where
  "pow2 e = (if 0 \<le> e then 2 ^ nat e else 1 / 2 ^ nat (- e))"

definition round_half_even :: "real \<Rightarrow> int" where
  "round_half_even x =
     (let n = \<lfloor>x\<rfloor>; r = x - of_int n
      in if r < 1 / 2 then n
         else if r > 1 / 2 then n + 1
         else if even n then n else n + 1)"

definition round_double :: "real \<Rightarrow> real" where
  "round_double x =
     (if x = 0 then 0
      else (let e = max (\<lfloor>log 2 \<bar>x\<bar>\<rfloor> - 52) (- 1074)
            in of_int (round_half_even (x / pow2 e)) * pow2 e))"

subsection \<open>The environment object\<close>

text \<open>
  The attributes of \<open>self\<close> that the class reads and writes. Tie targets are list indices;
  the constraint tables only ever hold the literals \<open>0\<close> and \<open>3\<close>, so they are naturals.
\<close>

record env =
  lattice_system :: string
  min_projection_values :: "real list"
  max_projection_values :: "real list"
  ignored_dims :: "bool list"
  projection_tied_values :: "nat option list"
  projection_fixed_values :: "real option list"
  lattice_params_tied_values :: "nat option list"
  lattice_params_fixed_values :: "real option list"
  state :: "real list"

text \<open>
  Modelled from the spec: the constants imported from
  \<^verbatim>\<open>gflownet.utils.crystals.constants\<close>, a module that is not among the source files; they
  are the seven enumerated lattice-system names.
\<close>

definition TRICLINIC :: string where "TRICLINIC = ''triclinic''"
definition MONOCLINIC :: string where "MONOCLINIC = ''monoclinic''"
definition ORTHORHOMBIC :: string where "ORTHORHOMBIC = ''orthorhombic''"
definition TETRAGONAL :: string where "TETRAGONAL = ''tetragonal''"
definition HEXAGONAL :: string where "HEXAGONAL = ''hexagonal''"
definition RHOMBOHEDRAL :: string where "RHOMBOHEDRAL = ''rhombohedral''"
definition CUBIC :: string where "CUBIC = ''cubic''"

subsection \<open>Constraint-table construction\<close>

text \<open>
  The value that \<open>numpy.log(3)\<close> returns is the parameter \<open>log3\<close>: \<open>ln 3\<close> read exactly,
  the binary64 number next to it in the code. Negating it and dividing it by four are
  exact in binary arithmetic.
\<close>

definition set_tables ::
  "env \<Rightarrow> bool list \<Rightarrow> nat option list \<Rightarrow> real option list \<Rightarrow> nat option list
     \<Rightarrow> real option list \<Rightarrow> env" where
  "set_tables self ign ptied pfixed ltied lfixed =
     self\<lparr>ignored_dims := ign,
          projection_tied_values := ptied,
          projection_fixed_values := pfixed,
          lattice_params_tied_values := ltied,
          lattice_params_fixed_values := lfixed\<rparr>"

definition setup_constraints :: "real \<Rightarrow> env \<Rightarrow> error + env" where
  "setup_constraints log3 self =
    (if lattice_system self = TRICLINIC then
       Inr (set_tables self
         (replicate 6 False)
         (replicate 6 None)
         (replicate 6 None)
         (replicate 6 None)
         (replicate 6 None))
     else if lattice_system self = MONOCLINIC then
       Inr (set_tables self
         [True, False, True, False, False, False]
         (replicate 6 None)
         [Some 0, None, Some 0, None, None, None]
         (replicate 6 None)
         [None, None, None, Some 90, None, Some 90])
     else if lattice_system self = ORTHORHOMBIC then
       Inr (set_tables self
         [True, True, True, False, False, False]
         (replicate 6 None)
         [Some 0, Some 0, Some 0, None, None, None]
         (replicate 6 None)
         [None, None, None, Some 90, Some 90, Some 90])
     else if lattice_system self = TETRAGONAL then
       Inr (set_tables self
         [True, True, True, True, False, False]
         (replicate 6 None)
         [Some 0, Some 0, Some 0, Some 0, None, None]
         [None, Some 0, None, None, None, None]
         [None, None, None, Some 90, Some 90, Some 90])
     else if lattice_system self = HEXAGONAL then
       Inr (set_tables self
         [True, True, True, True, False, False]
         (replicate 6 None)
         [Some (- log3 / 4), Some 0, Some 0, Some 0, None, None]
         [None, Some 0, None, None, None, None]
         [None, None, None, Some 90, Some 90, Some 120])
     else if lattice_system self = RHOMBOHEDRAL then
       Inr (set_tables self
         [False, True, True, True, True, False]
         [None, Some 0, Some 0, None, None, None]
         [None, None, None, Some 0, Some 0, None]
         [None, Some 0, Some 0, None, Some 3, Some 3]
         (replicate 6 None))
     else if lattice_system self = CUBIC then
       Inr (set_tables self
         [True, True, True, True, True, False]
         (replicate 6 None)
         [Some 0, Some 0, Some 0, Some 0, Some 0, None]
         [None, Some 0, Some 0, None, None, None]
         [None, None, None, Some 90, Some 90, Some 90])
     else Inl (ValueError (lattice_system self @ '' is not a valid lattice system'')))"

text \<open>
  \<open>set_lattice_system\<close> assigns the attribute and then rebuilds the tables. When the
  rebuild raises, the assignment has already happened: the object is returned together
  with the exception, if any.
\<close>

definition set_lattice_system :: "real \<Rightarrow> string \<Rightarrow> env \<Rightarrow> env \<times> error option" where
  "set_lattice_system log3 name self =
     (let self1 = self\<lparr>lattice_system := name\<rparr>
      in case setup_constraints log3 self1 of
           Inl e \<Rightarrow> (self1, Some e)
         | Inr self2 \<Rightarrow> (self2, None))"

text \<open>
  Modelled from the spec: the constructor of the parent class \<open>ContinuousCube\<close>, which is
  not among the source files. By the data model it creates the state vector (the source
  state) and a first \<open>ignored_dims\<close>, which \<open>setup_constraints\<close> overwrites; the state it
  creates is the parameter \<open>source\<close>. The tables do not exist before
  \<open>setup_constraints\<close> runs and are empty lists until then.
\<close>

definition init :: "real \<Rightarrow> string \<Rightarrow> real list \<Rightarrow> error + env" where
  "init log3 name source =
     setup_constraints log3
       \<lparr>lattice_system = name,
        min_projection_values = [- 3 / 2, - 3 / 2, - 3 / 2, - 9 / 2, - 3, - 3 / 2],
        max_projection_values = [3 / 2, 3 / 2, 3 / 2, 9 / 2, 3, 7],
        ignored_dims = [],
        projection_tied_values = [],
        projection_fixed_values = [],
        lattice_params_tied_values = [],
        lattice_params_fixed_values = [],
        state = source\<rparr>"

subsection \<open>Coordinate transform: state space and projection space\<close>

text \<open>
  Modelled from the spec: \<open>_get_state\<close>, a method of the parent class; as the
  docstrings of its callers say, it yields the argument, or the current state of the
  object when the argument is \<open>None\<close>.
\<close>

definition get_state :: "env \<Rightarrow> real list option \<Rightarrow> real list" where
  "get_state self st = (case st of None \<Rightarrow> state self | Some s \<Rightarrow> s)"

text \<open>
  One addition, one multiplication and one subtraction per dimension, each rounded.
\<close>

definition state2projection :: "(real \<Rightarrow> real) \<Rightarrow> env \<Rightarrow> real list option \<Rightarrow> real list" where
  "state2projection fl self st =
     map (\<lambda>(s, min_proj_v, max_proj_v).
            fl (min_proj_v + fl (s * fl (max_proj_v - min_proj_v))))
       (zip (get_state self st)
         (zip (min_projection_values self) (max_projection_values self)))"

text \<open>
  Two subtractions and one division per dimension, each rounded. A float division by
  zero raises ZeroDivisionError.
\<close>

definition projection2state :: "(real \<Rightarrow> real) \<Rightarrow> env \<Rightarrow> real list \<Rightarrow> error + real list" where
  "projection2state fl self projection =
     sequence
       (map (\<lambda>(proj, min_proj_v, max_proj_v).
               if fl (max_proj_v - min_proj_v) = 0 then Inl ZeroDivisionError
               else Inr (fl (fl (proj - min_proj_v) / fl (max_proj_v - min_proj_v))))
          (zip projection
            (zip (min_projection_values self) (max_projection_values self))))"

subsection \<open>Coordinate transform: projection space and lattice parameters\<close>

text \<open>Three-by-three matrices, row by row.\<close>

datatype mat3 = Mat3 real real real  real real real  real real real

fun mat_scale :: "real \<Rightarrow> mat3 \<Rightarrow> mat3" where
  "mat_scale k (Mat3 a b c d e f g h i) =
     Mat3 (k * a) (k * b) (k * c) (k * d) (k * e) (k * f) (k * g) (k * h) (k * i)"

fun mat_add :: "mat3 \<Rightarrow> mat3 \<Rightarrow> mat3" where
  "mat_add (Mat3 a b c d e f g h i) (Mat3 a' b' c' d' e' f' g' h' i') =
     Mat3 (a + a') (b + b') (c + c') (d + d') (e + e') (f + f') (g + g') (h + h') (i + i')"

definition B1 :: mat3 where "B1 = Mat3 0 1 0  1 0 0  0 0 0"
definition B2 :: mat3 where "B2 = Mat3 0 0 1  0 0 0  1 0 0"
definition B3 :: mat3 where "B3 = Mat3 0 0 0  0 0 1  0 1 0"
definition B4 :: mat3 where "B4 = Mat3 1 0 0  0 (- 1) 0  0 0 0"
definition B5 :: mat3 where "B5 = Mat3 1 0 0  0 1 0  0 0 (- 2)"
definition B6 :: mat3 where "B6 = Mat3 1 0 0  0 1 0  0 0 1"

definition rad2deg :: "real \<Rightarrow> real" where "rad2deg x = x * 180 / pi"
definition deg2rad :: "real \<Rightarrow> real" where "deg2rad x = x * pi / 180"

text \<open>
  \<open>expm\<close> and \<open>logm\<close> come from \<open>scipy.linalg\<close>; they are parameters of the model.
  \<open>x ** 0.5\<close>, \<open>numpy.arccos\<close> and \<open>numpy.cos\<close> are the real square root, arc cosine and
  cosine. Unpacking a sequence of the wrong length into six names raises ValueError.
\<close>

definition projection2lattice :: "(mat3 \<Rightarrow> mat3) \<Rightarrow> real list \<Rightarrow> error + real list" where
  "projection2lattice expm projection =
     (case projection of
        [k1, k2, k3, k4, k5, k6] \<Rightarrow>
          (let s = mat_add (mat_add (mat_add (mat_add (mat_add
                     (mat_scale k1 B1) (mat_scale k2 B2)) (mat_scale k3 B3))
                     (mat_scale k4 B4)) (mat_scale k5 B5)) (mat_scale k6 B6)
           in case expm (mat_scale 2 s) of
                Mat3 j00 j01 j02 j10 j11 j12 j20 j21 j22 \<Rightarrow>
                  (let a = sqrt j00;
                       b = sqrt j11;
                       c = sqrt j22;
                       alpha = rad2deg (arccos (j12 / (b * c)));
                       beta = rad2deg (arccos (j02 / (a * c)));
                       gamma = rad2deg (arccos (j01 / (a * b)))
                   in Inr [a, b, c, alpha, beta, gamma]))
      | _ \<Rightarrow> Inl (ValueError ''wrong number of values to unpack (expected 6)''))"

text \<open>
  The argument of \<open>_lattice2projection\<close> reaches it either as one list or, from
  \<open>readable2state\<close>, as starred positional arguments. To follow both calls the argument is
  a Python value: a float or a list of values.
\<close>

datatype pyval = PyFloat real | PyList "pyval list"

definition as_float :: "pyval \<Rightarrow> error + real" where
  "as_float v =
     (case v of PyFloat x \<Rightarrow> Inr x
      | PyList _ \<Rightarrow> Inl (TypeError ''unsupported operand type(s): list''))"

definition unpack6 :: "pyval \<Rightarrow> error + pyval list" where
  "unpack6 v =
     (case v of
        PyFloat _ \<Rightarrow> Inl (TypeError ''cannot unpack non-iterable float object'')
      | PyList xs \<Rightarrow>
          (if length xs = 6 then Inr xs
           else Inl (ValueError ''wrong number of values to unpack (expected 6)'')))"

definition lattice2projection :: "(mat3 \<Rightarrow> mat3 \<times> real) \<Rightarrow> pyval \<Rightarrow> error + real list" where
  "lattice2projection logm lattice_params =
     and_then (unpack6 lattice_params) (\<lambda>vs.
     and_then (sequence (map as_float vs)) (\<lambda>ps.
       (case ps of
          [a, b, c, alpha, beta, gamma] \<Rightarrow>
            (let ab_cos_gamma = a * b * cos (deg2rad gamma);
                 ac_cos_beta = a * c * cos (deg2rad beta);
                 bc_cos_alpha = b * c * cos (deg2rad alpha);
                 j = Mat3 (a\<^sup>2) ab_cos_gamma ac_cos_beta
                          ab_cos_gamma (b\<^sup>2) bc_cos_alpha
                          ac_cos_beta bc_cos_alpha (c\<^sup>2)
             in case logm j of
                  (s0, err) \<Rightarrow>
                    if err > 1 / 10 ^ 9 then Inl (ValueError ''logm error larger than 1e-9'')
                    else (case mat_scale (1 / 2) s0 of
                            Mat3 s00 s01 s02 s10 s11 s12 s20 s21 s22 \<Rightarrow>
                              (let k1 = s01;
                                   k2 = s02;
                                   k3 = s12;
                                   k6 = (s00 + s11 + s22) / 3;
                                   k5 = (s00 + s11) / 2 - k6;
                                   k4 = s00 - (k5 + k6)
                               in Inr [k1, k2, k3, k4, k5, k6])))
        | _ \<Rightarrow> Inl (ValueError ''wrong number of values to unpack (expected 6)''))))"

subsection \<open>Constraint application\<close>

text \<open>
  One pass of the loop body of \<open>apply_projection_constraints\<close> and
  \<open>apply_lattice_constraints\<close> (the two bodies are the same text over different
  attributes): the value for dimension \<open>i\<close>, given the values \<open>acc\<close> appended so far.
\<close>

definition constrained_element ::
  "real option list \<Rightarrow> nat option list \<Rightarrow> real list \<Rightarrow> real list \<Rightarrow> nat \<Rightarrow> error + real" where
  "constrained_element fixed tied vec acc i =
     (case py_index fixed i of
        Inl e \<Rightarrow> Inl e
      | Inr (Some c) \<Rightarrow> Inr c
      | Inr None \<Rightarrow>
          (case py_index tied i of
             Inl e \<Rightarrow> Inl e
           | Inr (Some tied_idx) \<Rightarrow> py_index acc tied_idx
           | Inr None \<Rightarrow> py_index vec i))"

fun constraint_loop ::
  "real option list \<Rightarrow> nat option list \<Rightarrow> real list \<Rightarrow> nat list \<Rightarrow> real list
     \<Rightarrow> error + real list" where
  "constraint_loop fixed tied vec [] acc = Inr acc"
| "constraint_loop fixed tied vec (i # rest) acc =
     (case constrained_element fixed tied vec acc i of
        Inl e \<Rightarrow> Inl e
      | Inr x \<Rightarrow> constraint_loop fixed tied vec rest (acc @ [x]))"

definition apply_projection_constraints :: "env \<Rightarrow> real list \<Rightarrow> error + real list" where
  "apply_projection_constraints self projection_vector =
     constraint_loop (projection_fixed_values self) (projection_tied_values self)
       projection_vector [0..<length (projection_tied_values self)] []"

definition apply_lattice_constraints :: "env \<Rightarrow> real list \<Rightarrow> error + real list" where
  "apply_lattice_constraints self lattice_params =
     constraint_loop (lattice_params_fixed_values self) (lattice_params_tied_values self)
       lattice_params [0..<length (lattice_params_tied_values self)] []"

subsection \<open>The environment's operations\<close>

definition state2lattice ::
  "(real \<Rightarrow> real) \<Rightarrow> (mat3 \<Rightarrow> mat3) \<Rightarrow> env \<Rightarrow> real list option
     \<Rightarrow> error + real list list" where
  "state2lattice fl expm self st =
     (let projection_vector = state2projection fl self (Some (get_state self st))
      in and_then (apply_projection_constraints self projection_vector) (\<lambda>projection_vector.
         and_then (projection2lattice expm projection_vector) (\<lambda>lattice_params.
         and_then (apply_lattice_constraints self lattice_params) (\<lambda>constrained.
           (case constrained of
              [a, b, c, alpha, beta, gamma] \<Rightarrow> Inr [[a, b, c], [alpha, beta, gamma]]
            | _ \<Rightarrow> Inl (ValueError ''wrong number of values to unpack (expected 6)''))))))"

text \<open>
  The step of the parent class (the hypercube stepping engine) is not among the source
  files; it is the parameter \<open>cube_step\<close>, which reads the object, the action and the
  direction and returns the candidate state, the action and the validity flag. The
  method then re-projects the candidate and stores it, whatever the flag is.
\<close>

definition step ::
  "(real \<Rightarrow> real) \<Rightarrow> (env \<Rightarrow> 'a \<Rightarrow> bool \<Rightarrow> real list \<times> 'a \<times> bool) \<Rightarrow> 'a \<Rightarrow> bool \<Rightarrow> env
     \<Rightarrow> error + env \<times> real list \<times> 'a \<times> bool" where
  "step fl cube_step action backward self =
     (case cube_step self action backward of
        (st, action', valid) \<Rightarrow>
          (let projection_vector = state2projection fl self (Some st)
           in and_then (apply_projection_constraints self projection_vector)
                (\<lambda>projection_vector.
              and_then (projection2state fl self projection_vector) (\<lambda>st'.
                Inr (self\<lparr>state := st'\<rparr>, st', action', valid)))))"

definition parameters2state ::
  "(real \<Rightarrow> real) \<Rightarrow> (mat3 \<Rightarrow> mat3 \<times> real) \<Rightarrow> env \<Rightarrow> real list option
     \<Rightarrow> real list option \<Rightarrow> real list option \<Rightarrow> error + real list" where
  "parameters2state fl logm self parameters lengths angles =
     and_then
       (case parameters of
          Some p \<Rightarrow> Inr p
        | None \<Rightarrow>
            (case (lengths, angles) of
               (Some l, Some a) \<Rightarrow> Inr (l @ a)
             | _ \<Rightarrow> Inl (ValueError ''Cannot determine all six parameters.'')))
       (\<lambda>p. and_then (lattice2projection logm (PyList (map PyFloat p)))
               (projection2state fl self))"

definition is_valid :: "(real \<Rightarrow> real) \<Rightarrow> env \<Rightarrow> real list option \<Rightarrow> bool" where
  "is_valid fl self st =
     list_all (\<lambda>(p, min_p, max_p). \<not> (p < min_p \<or> p > max_p))
       (zip (state2projection fl self (Some (get_state self st)))
         (zip (min_projection_values self) (max_projection_values self)))"

subsection \<open>Readable strings\<close>

text \<open>\<open>s.replace(c, "")\<close> for a one-character \<open>c\<close>, and \<open>s.split(c)\<close>.\<close>

definition remove_char :: "char \<Rightarrow> string \<Rightarrow> string" where
  "remove_char c s = filter (\<lambda>x. x \<noteq> c) s"

fun split_on :: "char \<Rightarrow> string \<Rightarrow> string list" where
  "split_on c [] = [[]]"
| "split_on c (x # xs) =
     (if x = c then [] # split_on c xs
      else (case split_on c xs of
              w # ws \<Rightarrow> (x # w) # ws
            | [] \<Rightarrow> [[x]]))"

text \<open>
  A call \<open>f(*args)\<close> of a method with one parameter besides \<open>self\<close>: Python binds the
  positional arguments one to one and raises TypeError when their number is not one.
\<close>

definition call_starred :: "(pyval \<Rightarrow> error + 'r) \<Rightarrow> pyval list \<Rightarrow> error + 'r" where
  "call_starred f args =
     (case args of
        [a] \<Rightarrow> f a
      | _ \<Rightarrow> Inl (TypeError ''takes 2 positional arguments but a different number were given''))"

text \<open>
  The builtin \<open>float\<close> is the parameter \<open>pyfloat\<close> (\<open>None\<close> where it raises ValueError);
  the formatting of a float inside an f-string is the parameter \<open>fmt\<close>.
\<close>

definition readable2state ::
  "(real \<Rightarrow> real) \<Rightarrow> (string \<Rightarrow> real option) \<Rightarrow> (mat3 \<Rightarrow> mat3 \<times> real) \<Rightarrow> env \<Rightarrow> string
     \<Rightarrow> error + real list" where
  "readable2state fl pyfloat logm self readable =
     (let readable = fold remove_char [CHR ''('', CHR '')'', CHR '' ''] readable;
          values = split_on CHR '','' readable
      in and_then
           (sequence
              (map (\<lambda>v. case pyfloat v of
                           None \<Rightarrow> Inl (ValueError ''could not convert string to float'')
                         | Some x \<Rightarrow> Inr x) values))
           (\<lambda>values.
              and_then (call_starred (lattice2projection logm) (map PyFloat values))
                (projection2state fl self)))"

definition state2readable ::
  "(real \<Rightarrow> real) \<Rightarrow> (real \<Rightarrow> string) \<Rightarrow> (mat3 \<Rightarrow> mat3) \<Rightarrow> env \<Rightarrow> real list option
     \<Rightarrow> error + string" where
  "state2readable fl fmt expm self st =
     and_then (state2lattice fl expm self (Some (get_state self st))) (\<lambda>lat.
       (case lat of
          [[a, b, c], [alpha, beta, gamma]] \<Rightarrow>
            Inr (''('' @ fmt a @ '', '' @ fmt b @ '', '' @ fmt c @ ''), (''
                 @ fmt alpha @ '', '' @ fmt beta @ '', '' @ fmt gamma @ '')'')
        | _ \<Rightarrow> Inl (ValueError ''wrong number of values to unpack'')))"

section \<open>Specification vocabulary\<close>

text \<open>
  The notions the specification uses to describe a constraint table and the output of
  constraint application; they follow its wording, not the code.
\<close>

text \<open>
  Every tie target has a lower index than the dimension tied to it.
\<close>

definition ties_lower :: "nat option list \<Rightarrow> bool" where
  "ties_lower tied =
     list_all (\<lambda>i. case tied ! i of None \<Rightarrow> True | Some j \<Rightarrow> j < i) [0..<length tied]"

text \<open>
  The value the specification prescribes for dimension \<open>i\<close> of the output \<open>out\<close> on input
  \<open>vec\<close>: the fixed value if set, else the output value at the tied index, else the
  input value.
\<close>

definition resolved ::
  "real option list \<Rightarrow> nat option list \<Rightarrow> real list \<Rightarrow> real list \<Rightarrow> nat \<Rightarrow> real" where
  "resolved fixed tied vec out i =
     (case fixed ! i of
        Some c \<Rightarrow> c
      | None \<Rightarrow> (case tied ! i of Some j \<Rightarrow> out ! j | None \<Rightarrow> vec ! i))"

text \<open>
  The four tables have six entries each and all tie targets are lower than the dimension
  tied to them.
\<close>

definition tables_wf :: "env \<Rightarrow> bool" where
  "tables_wf self =
     (length (projection_fixed_values self) = 6 \<and>
      length (projection_tied_values self) = 6 \<and>
      length (lattice_params_fixed_values self) = 6 \<and>
      length (lattice_params_tied_values self) = 6 \<and>
      ties_lower (projection_tied_values self) \<and>
      ties_lower (lattice_params_tied_values self))"

text \<open>
  A result of constraint application follows the precedence rule: it is a six-dimensional
  vector, not an exception, and each dimension holds the prescribed value.
\<close>

definition follows_precedence ::
  "real option list \<Rightarrow> nat option list \<Rightarrow> real list \<Rightarrow> error + real list \<Rightarrow> bool" where
  "follows_precedence fixed tied vec r =
     (case r of
        Inl _ \<Rightarrow> False
      | Inr out \<Rightarrow>
          length out = 6 \<and>
          list_all (\<lambda>i. out ! i = resolved fixed tied vec out i) [0..<6])"

text \<open>
  Two input vectors agree on every dimension that has neither a fixed value nor a tied
  index.
\<close>

definition agree_on_free ::
  "real option list \<Rightarrow> nat option list \<Rightarrow> real list \<Rightarrow> real list \<Rightarrow> bool" where
  "agree_on_free fixed tied v v' =
     list_all (\<lambda>i. fixed ! i = None \<and> tied ! i = None \<longrightarrow> v ! i = v' ! i) [0..<6]"

text \<open>
  The projection bounds are the ones the constructor sets.
\<close>

definition default_bounds :: "env \<Rightarrow> bool" where
  "default_bounds self =
     (min_projection_values self = [- 3 / 2, - 3 / 2, - 3 / 2, - 9 / 2, - 3, - 3 / 2] \<and>
      max_projection_values self = [3 / 2, 3 / 2, 3 / 2, 9 / 2, 3, 7])"

subsection \<open>Example objects\<close>

text \<open>
  The binary64 number that \<open>numpy.log(3)\<close> returns, \<open>1.0986122886681098\<close>.
\<close>

definition double_log3 :: real where
  "double_log3 = 4947709893870347 / 4503599627370496"


definition rhombohedral_env :: env where
  "rhombohedral_env =
     \<lparr>lattice_system = RHOMBOHEDRAL,
      min_projection_values = [- 3 / 2, - 3 / 2, - 3 / 2, - 9 / 2, - 3, - 3 / 2],
      max_projection_values = [3 / 2, 3 / 2, 3 / 2, 9 / 2, 3, 7],
      ignored_dims = [False, True, True, True, True, False],
      projection_tied_values = [None, Some 0, Some 0, None, None, None],
      projection_fixed_values = [None, None, None, Some 0, Some 0, None],
      lattice_params_tied_values = [None, Some 0, Some 0, None, Some 3, Some 3],
      lattice_params_fixed_values = [None, None, None, None, None, None],
      state = [0, 0, 0, 0, 0, 0]\<rparr>"

definition cubic_source :: env where
  "cubic_source =
     \<lparr>lattice_system = CUBIC,
      min_projection_values = [- 3 / 2, - 3 / 2, - 3 / 2, - 9 / 2, - 3, - 3 / 2],
      max_projection_values = [3 / 2, 3 / 2, 3 / 2, 9 / 2, 3, 7],
      ignored_dims = [True, True, True, True, True, False],
      projection_tied_values = [None, None, None, None, None, None],
      projection_fixed_values = [Some 0, Some 0, Some 0, Some 0, Some 0, None],
      lattice_params_tied_values = [None, Some 0, Some 0, None, None, None],
      lattice_params_fixed_values = [None, None, None, Some 90, Some 90, Some 90],
      state = [0, 0, 0, 0, 0, 0]\<rparr>"

definition triclinic_midpoint :: env where
  "triclinic_midpoint =
     \<lparr>lattice_system = TRICLINIC,
      min_projection_values = [- 3 / 2, - 3 / 2, - 3 / 2, - 9 / 2, - 3, - 3 / 2],
      max_projection_values = [3 / 2, 3 / 2, 3 / 2, 9 / 2, 3, 7],
      ignored_dims = [False, False, False, False, False, False],
      projection_tied_values = [None, None, None, None, None, None],
      projection_fixed_values = [None, None, None, None, None, None],
      lattice_params_tied_values = [None, None, None, None, None, None],
      lattice_params_fixed_values = [None, None, None, None, None, None],
      state = [1 / 2, 1 / 2, 1 / 2, 1 / 2, 1 / 2, 1 / 2]\<rparr>"

text \<open>
  Two stand-ins for the stepping engine of the parent class: one rejects every action and
  returns the current state with \<open>valid = False\<close>; the other adds the increments of the
  action to the state (subtracts them on a backward step) and accepts.
\<close>

definition rejecting_engine :: "env \<Rightarrow> unit \<Rightarrow> bool \<Rightarrow> real list \<times> unit \<times> bool" where
  "rejecting_engine self action backward = (state self, action, False)"


text \<open>
  A stand-in for the builtin \<open>float\<close> on the two literals of the readable example, and
  the matrix exponential restricted to diagonal matrices.
\<close>

definition example_float :: "string \<Rightarrow> real option" where
  "example_float s =
     (if s = ''4.0'' then Some 4 else if s = ''90.0'' then Some 90 else None)"

definition diagonal_expm :: "mat3 \<Rightarrow> mat3" where
  "diagonal_expm m =
     (case m of Mat3 a b c d e f g h i \<Rightarrow> Mat3 (exp a) 0 0  0 (exp e) 0  0 0 (exp i))"

section \<open>Properties\<close>

subsection \<open>Auxiliary facts\<close>

lemmas system_names =
  TRICLINIC_def MONOCLINIC_def ORTHORHOMBIC_def TETRAGONAL_def HEXAGONAL_def
  RHOMBOHEDRAL_def CUBIC_def

lemma upt6: "[0..<6] = [0, 1, 2, 3, 4, 5]"
  by (simp add: upt_rec)

lemma replicate6: "replicate 6 x = [x, x, x, x, x, x]"
  by (simp add: numeral_eq_Suc)

lemma less6: "i < (6::nat) \<longleftrightarrow> i = 0 \<or> i = 1 \<or> i = 2 \<or> i = 3 \<or> i = 4 \<or> i = 5"
  by auto

lemma length6E: "length xs = 6 \<Longrightarrow> \<exists>a b c d e f. xs = [a, b, c, d, e, f]"
  by (auto simp: numeral_eq_Suc length_Suc_conv)

lemma ties_lowerD: "ties_lower tied \<Longrightarrow> i < length tied \<Longrightarrow> tied ! i = Some j \<Longrightarrow> j < i"
  by (auto simp: ties_lower_def list_all_iff split: option.splits)

lemma constrained_element_ok:
  assumes "length fixed = n" "length tied = n" "n \<le> length vec" "ties_lower tied"
    and "i < n" "length acc = i"
  shows "constrained_element fixed tied vec acc i = Inr (resolved fixed tied vec acc i)"
  using assms ties_lowerD[of tied i]
  by (auto simp: constrained_element_def py_index_def resolved_def split: option.splits)

lemma constraint_loop_resolves:
  assumes "length fixed = n" "length tied = n" "n \<le> length vec" "ties_lower tied"
  shows "i \<le> n \<Longrightarrow> length acc = i \<Longrightarrow>
     \<exists>out. constraint_loop fixed tied vec [i..<n] acc = Inr out \<and> length out = n \<and>
           take i out = acc \<and>
           (\<forall>k. i \<le> k \<and> k < n \<longrightarrow> out ! k = resolved fixed tied vec out k)"
proof (induction "n - i" arbitrary: i acc)
  case 0
  then show ?case by simp
next
  case (Suc d)
  then have lt: "i < n" by simp
  define x where "x = resolved fixed tied vec acc i"
  have el: "constrained_element fixed tied vec acc i = Inr x"
    unfolding x_def using constrained_element_ok[OF assms lt Suc.prems(2)] .
  have "d = n - Suc i" using Suc.hyps(2) by simp
  moreover have "Suc i \<le> n" using lt by simp
  moreover have "length (acc @ [x]) = Suc i" using Suc.prems(2) by simp
  ultimately obtain out where
    run: "constraint_loop fixed tied vec [Suc i..<n] (acc @ [x]) = Inr out"
    and len: "length out = n"
    and tk: "take (Suc i) out = acc @ [x]"
    and rest: "\<forall>k. Suc i \<le> k \<and> k < n \<longrightarrow> out ! k = resolved fixed tied vec out k"
    using Suc.hyps(1)[of "Suc i" "acc @ [x]"] by blast
  have tki: "take i out = acc"
  proof -
    have "take i out = take i (take (Suc i) out)" by (simp add: min_def)
    then show ?thesis using tk Suc.prems(2) by simp
  qed
  have outi: "out ! i = x"
  proof -
    have "out ! i = take (Suc i) out ! i" by simp
    then show ?thesis using tk Suc.prems(2) by (simp add: nth_append)
  qed
  have low: "j < i \<Longrightarrow> out ! j = acc ! j" for j
    using tki by (metis nth_take)
  have xi: "x = resolved fixed tied vec out i"
    unfolding x_def resolved_def
    using ties_lowerD[OF assms(4), of i] lt assms(2) low
    by (auto split: option.splits)
  have "constraint_loop fixed tied vec [i..<n] acc = Inr out"
    using lt el run by (simp add: upt_conv_Cons)
  moreover have "\<forall>k. i \<le> k \<and> k < n \<longrightarrow> out ! k = resolved fixed tied vec out k"
  proof (intro allI impI)
    fix k assume "i \<le> k \<and> k < n"
    then consider "k = i" | "Suc i \<le> k \<and> k < n" by force
    then show "out ! k = resolved fixed tied vec out k"
      using outi xi rest by cases auto
  qed
  ultimately show ?case using len tki by blast
qed

lemma constraint_loop_total:
  assumes "length fixed = length tied" "length tied \<le> length vec" "ties_lower tied"
  shows "\<exists>out. constraint_loop fixed tied vec [0..<length tied] [] = Inr out \<and>
           length out = length tied \<and>
           (\<forall>k<length tied. out ! k = resolved fixed tied vec out k)"
  using constraint_loop_resolves[OF assms(1) refl assms(2,3), of 0 "[]"] by auto

lemma resolved_unique:
  assumes tl: "ties_lower tied" and "length tied = n" "length out = n" "length out' = n"
    and r: "\<forall>k<n. out ! k = resolved fixed tied v out k"
    and r': "\<forall>k<n. out' ! k = resolved fixed tied v' out' k"
    and agree: "\<forall>k<n. fixed ! k = None \<and> tied ! k = None \<longrightarrow> v ! k = v' ! k"
  shows "out = out'"
proof (rule nth_equalityI)
  show "length out = length out'" using assms by simp
next
  fix i assume "i < length out"
  then have "i < n" using assms by simp
  then show "out ! i = out' ! i"
  proof (induction i rule: less_induct)
    case (less i)
    show ?case
    proof (cases "fixed ! i")
      case (Some c)
      then show ?thesis using r r' less.prems by (simp add: resolved_def)
    next
      case None
      show ?thesis
      proof (cases "tied ! i")
        case (Some j)
        then have "j < i" using ties_lowerD[OF tl, of i j] less.prems assms(2) by simp
        then have "out ! j = out' ! j" using less.IH less.prems by simp
        then show ?thesis using r r' less.prems None Some by (simp add: resolved_def)
      next
        case N2: None
        then show ?thesis using r r' less.prems None agree by (simp add: resolved_def)
      qed
    qed
  qed
qed

lemma resolved_self:
  assumes "\<forall>k<n. out ! k = resolved fixed tied v out k"
  shows "\<forall>k<n. out ! k = resolved fixed tied out out k"
  using assms by (auto simp: resolved_def split: option.splits)

lemma constraint_loop_idem:
  assumes "length fixed = length tied" "length tied \<le> length vec" "ties_lower tied"
    and "constraint_loop fixed tied vec [0..<length tied] [] = Inr out"
  shows "constraint_loop fixed tied out [0..<length tied] [] = Inr out"
proof -
  obtain o1 where o1: "constraint_loop fixed tied vec [0..<length tied] [] = Inr o1"
    "length o1 = length tied" "\<forall>k<length tied. o1 ! k = resolved fixed tied vec o1 k"
    using constraint_loop_total[OF assms(1-3)] by blast
  then have eq: "o1 = out" using assms(4) by simp
  obtain o2 where o2: "constraint_loop fixed tied out [0..<length tied] [] = Inr o2"
    "length o2 = length tied" "\<forall>k<length tied. o2 ! k = resolved fixed tied out o2 k"
    using constraint_loop_total[OF assms(1) _ assms(3), of out] o1(2) eq by auto
  have "o2 = out"
    using resolved_unique[OF assms(3) refl o2(2) _ o2(3) resolved_self, of out vec]
      o1 eq by simp
  then show ?thesis using o2(1) by simp
qed

lemma constraint_loop_noninterference:
  assumes "length fixed = length tied" "length tied \<le> length v" "length tied \<le> length v'"
    "ties_lower tied"
    and "\<forall>k<length tied. fixed ! k = None \<and> tied ! k = None \<longrightarrow> v ! k = v' ! k"
  shows "constraint_loop fixed tied v [0..<length tied] [] =
         constraint_loop fixed tied v' [0..<length tied] []"
proof -
  obtain o1 where o1: "constraint_loop fixed tied v [0..<length tied] [] = Inr o1"
    "length o1 = length tied" "\<forall>k<length tied. o1 ! k = resolved fixed tied v o1 k"
    using constraint_loop_total[OF assms(1,2,4)] by blast
  obtain o2 where o2: "constraint_loop fixed tied v' [0..<length tied] [] = Inr o2"
    "length o2 = length tied" "\<forall>k<length tied. o2 ! k = resolved fixed tied v' o2 k"
    using constraint_loop_total[OF assms(1,3,4)] by blast
  have "o1 = o2"
    using resolved_unique[OF assms(4) refl o1(2) o2(2) o1(3) o2(3) assms(5)] .
  then show ?thesis using o1(1) o2(1) by simp
qed

lemma follows_precedence_total:
  assumes "length fixed = 6" "length tied = 6" "ties_lower tied" "length v = 6"
  shows "follows_precedence fixed tied v (constraint_loop fixed tied v [0..<length tied] [])"
proof -
  obtain out where "constraint_loop fixed tied v [0..<length tied] [] = Inr out"
    "length out = length tied" "\<forall>k<length tied. out ! k = resolved fixed tied v out k"
    using constraint_loop_total[of fixed tied v] assms by auto
  then show ?thesis
    using assms(2) by (simp add: follows_precedence_def list_all_iff)
qed

lemma pow2_powr: "pow2 e = 2 powr (of_int e)"
proof (cases "0 \<le> e")
  case True
  then show ?thesis by (simp add: pow2_def powr_int)
next
  case False
  then show ?thesis by (simp add: pow2_def powr_int divide_inverse)
qed

lemma round_double_binade:
  assumes "pow2 k \<le> \<bar>x\<bar>" "\<bar>x\<bar> < pow2 (k + 1)" "- 1022 \<le> k"
  shows "round_double x = of_int (round_half_even (x / pow2 (k - 52))) * pow2 (k - 52)"
proof -
  have pos: "0 < \<bar>x\<bar>"
    using assms(1) by (smt (verit) pow2_powr powr_gt_zero)
  have "\<lfloor>log 2 \<bar>x\<bar>\<rfloor> = k"
    using assms(1,2) pos by (simp add: floor_log_eq_powr_iff pow2_powr)
  moreover have "x \<noteq> 0" using pos by simp
  ultimately show ?thesis using assms(3) by (simp add: round_double_def Let_def)
qed

lemma rd_0: "round_double 0 = 0"
  by (simp add: round_double_def)

lemma rd_1_4:
  "round_double (1 / 4) = 1 / 4"
  using round_double_binade[of "- 2" "1 / 4"]
  by (simp add: pow2_def round_half_even_def)

lemma rd_1_2:
  "round_double (1 / 2) = 1 / 2"
  using round_double_binade[of "- 1" "1 / 2"]
  by (simp add: pow2_def round_half_even_def)

lemma rd_5_8:
  "round_double (5 / 8) = 5 / 8"
  using round_double_binade[of "- 1" "5 / 8"]
  by (simp add: pow2_def round_half_even_def)

lemma rd_3_4:
  "round_double (3 / 4) = 3 / 4"
  using round_double_binade[of "- 1" "3 / 4"]
  by (simp add: pow2_def round_half_even_def)

lemma rd_3_2:
  "round_double (3 / 2) = 3 / 2"
  using round_double_binade[of 0 "3 / 2"]
  by (simp add: pow2_def round_half_even_def)

lemma rd_17_8:
  "round_double (17 / 8) = 17 / 8"
  using round_double_binade[of 1 "17 / 8"]
  by (simp add: pow2_def round_half_even_def)

lemma rd_9_4:
  "round_double (9 / 4) = 9 / 4"
  using round_double_binade[of 1 "9 / 4"]
  by (simp add: pow2_def round_half_even_def)

lemma rd_11_4:
  "round_double (11 / 4) = 11 / 4"
  using round_double_binade[of 1 "11 / 4"]
  by (simp add: pow2_def round_half_even_def)

lemma rd_3:
  "round_double (3) = 3"
  using round_double_binade[of 1 "3"]
  by (simp add: pow2_def round_half_even_def)

lemma rd_17_4:
  "round_double (17 / 4) = 17 / 4"
  using round_double_binade[of 2 "17 / 4"]
  by (simp add: pow2_def round_half_even_def)

lemma rd_9_2:
  "round_double (9 / 2) = 9 / 2"
  using round_double_binade[of 2 "9 / 2"]
  by (simp add: pow2_def round_half_even_def)

lemma rd_6:
  "round_double (6) = 6"
  using round_double_binade[of 2 "6"]
  by (simp add: pow2_def round_half_even_def)

lemma rd_17_2:
  "round_double (17 / 2) = 17 / 2"
  using round_double_binade[of 3 "17 / 2"]
  by (simp add: pow2_def round_half_even_def)

lemma rd_9:
  "round_double (9) = 9"
  using round_double_binade[of 3 "9"]
  by (simp add: pow2_def round_half_even_def)

lemma rd_m3_4:
  "round_double (- (3 / 4)) = - (3 / 4)"
  using round_double_binade[of "- 1" "- (3 / 4)"]
  by (simp add: pow2_def round_half_even_def)

lemma rd_m3_2:
  "round_double (- (3 / 2)) = - (3 / 2)"
  using round_double_binade[of 0 "- (3 / 2)"]
  by (simp add: pow2_def round_half_even_def)

lemma rd_m9_4:
  "round_double (- (9 / 4)) = - (9 / 4)"
  using round_double_binade[of 1 "- (9 / 4)"]
  by (simp add: pow2_def round_half_even_def)

lemma rd_m3:
  "round_double (- 3) = - 3"
  using round_double_binade[of 1 "- 3"]
  by (simp add: pow2_def round_half_even_def)

lemma rd_m9_2:
  "round_double (- (9 / 2)) = - (9 / 2)"
  using round_double_binade[of 2 "- (9 / 2)"]
  by (simp add: pow2_def round_half_even_def)

lemma rd_hex_shift:
  "round_double (22073887870352629 / 18014398509481984) = 5518471967588157 / 4503599627370496"
  using round_double_binade[of 0 "22073887870352629 / 18014398509481984"]
  by (simp add: pow2_def round_half_even_def)

lemma rd_hex_state:
  "round_double (1839490655862719 / 4503599627370496) = 1839490655862719 / 4503599627370496"
  using round_double_binade[of "- 2" "1839490655862719 / 4503599627370496"]
  by (simp add: pow2_def round_half_even_def)

lemma rd_hex_scaled:
  "round_double (5518471967588157 / 4503599627370496) = 5518471967588157 / 4503599627370496"
  using round_double_binade[of 0 "5518471967588157 / 4503599627370496"]
  by (simp add: pow2_def round_half_even_def)

lemma rd_hex_back:
  "round_double (- (1236927473467587 / 4503599627370496)) = - (1236927473467587 / 4503599627370496)"
  using round_double_binade[of "- 2" "- (1236927473467587 / 4503599627370496)"]
  by (simp add: pow2_def round_half_even_def)

lemmas rd_values =
  rd_1_4 rd_1_2 rd_5_8 rd_3_4 rd_3_2 rd_17_8
  rd_9_4 rd_11_4 rd_3 rd_17_4 rd_9_2 rd_6
  rd_17_2 rd_9 rd_m3_4 rd_m3_2 rd_m9_4 rd_m3
  rd_m9_2 rd_hex_shift rd_hex_state rd_hex_scaled rd_hex_back

lemma setup_constraints_tables_wf:
  "setup_constraints log3 self0 = Inr self \<Longrightarrow> tables_wf self"
  by (auto simp: setup_constraints_def set_tables_def tables_wf_def ties_lower_def
        upt6 replicate6 split: if_splits)

lemma setup_constraints_frame:
  "setup_constraints log3 self0 = Inr self \<Longrightarrow>
     min_projection_values self = min_projection_values self0 \<and>
     max_projection_values self = max_projection_values self0 \<and>
     state self = state self0 \<and> lattice_system self = lattice_system self0"
  by (auto simp: setup_constraints_def set_tables_def split: if_splits)

lemma setup_constraints_no_overlap:
  assumes "setup_constraints log3 self0 = Inr self" "i < 6"
  shows "(projection_tied_values self ! i = Some j \<longrightarrow> projection_fixed_values self ! i = None) \<and>
     (lattice_params_tied_values self ! i = Some j \<longrightarrow> lattice_params_fixed_values self ! i = None)"
  using assms
  by (auto simp: setup_constraints_def set_tables_def replicate6 less6 split: if_splits)

lemma setup_constraints_cubic:
  assumes "setup_constraints log3 self0 = Inr self" "lattice_system self = CUBIC"
  shows "lattice_params_tied_values self = [None, Some 0, Some 0, None, None, None] \<and>
         lattice_params_fixed_values self = [None, None, None, Some 90, Some 90, Some 90]"
  using assms
  by (auto simp: setup_constraints_def set_tables_def system_names split: if_splits)

lemma rhombohedral_env_init: "init log3 RHOMBOHEDRAL [0, 0, 0, 0, 0, 0] = Inr rhombohedral_env"
  by (simp add: init_def setup_constraints_def set_tables_def rhombohedral_env_def
        system_names replicate6)

lemma rhombohedral_env_setup: "setup_constraints log3 rhombohedral_env = Inr rhombohedral_env"
  by (simp add: setup_constraints_def set_tables_def rhombohedral_env_def
        system_names replicate6)

lemma cubic_source_init: "init log3 CUBIC [0, 0, 0, 0, 0, 0] = Inr cubic_source"
  by (simp add: init_def setup_constraints_def set_tables_def cubic_source_def
        system_names replicate6)

lemma cubic_source_setup: "setup_constraints log3 cubic_source = Inr cubic_source"
  by (simp add: setup_constraints_def set_tables_def cubic_source_def
        system_names replicate6)

lemma triclinic_midpoint_init:
  "init log3 TRICLINIC [1 / 2, 1 / 2, 1 / 2, 1 / 2, 1 / 2, 1 / 2] = Inr triclinic_midpoint"
  by (simp add: init_def setup_constraints_def set_tables_def triclinic_midpoint_def
        system_names replicate6)

lemma triclinic_midpoint_setup: "setup_constraints log3 triclinic_midpoint = Inr triclinic_midpoint"
  by (simp add: setup_constraints_def set_tables_def triclinic_midpoint_def
        system_names replicate6)

lemma apply_projection_constraints_total:
  assumes "tables_wf self" "length v = 6"
  shows "\<exists>q. apply_projection_constraints self v = Inr q \<and> length q = 6 \<and>
             apply_projection_constraints self q = Inr q"
proof -
  obtain q where q: "constraint_loop (projection_fixed_values self) (projection_tied_values self) v
       [0..<length (projection_tied_values self)] [] = Inr q" "length q = 6"
    using constraint_loop_total[of "projection_fixed_values self" "projection_tied_values self" v]
      assms by (auto simp: tables_wf_def)
  then show ?thesis
    using constraint_loop_idem[of "projection_fixed_values self" "projection_tied_values self" v q]
      assms by (simp add: tables_wf_def apply_projection_constraints_def)
qed

lemma apply_lattice_constraints_total:
  assumes "tables_wf self" "length v = 6"
  shows "\<exists>out. apply_lattice_constraints self v = Inr out \<and> length out = 6 \<and>
           (\<forall>k<6. out ! k = resolved (lattice_params_fixed_values self)
                               (lattice_params_tied_values self) v out k)"
  using constraint_loop_total[of "lattice_params_fixed_values self"
      "lattice_params_tied_values self" v] assms
  by (auto simp: tables_wf_def apply_lattice_constraints_def)

lemma projection2lattice_total:
  assumes "length q = 6"
  shows "\<exists>l. projection2lattice expm q = Inr l \<and> length l = 6"
proof -
  obtain k1 k2 k3 k4 k5 k6 where q: "q = [k1, k2, k3, k4, k5, k6]"
    using length6E[OF assms] by blast
  show ?thesis
    unfolding q projection2lattice_def Let_def
    by (simp split: mat3.split)
qed

lemma lattice2projection_float: "\<exists>msg. lattice2projection logm (PyFloat x) = Inl (TypeError msg)"
  by (simp add: lattice2projection_def unpack6_def and_then_def)

lemma call_starred_lattice2projection:
  "\<exists>msg. call_starred (lattice2projection logm) (map PyFloat xs) = Inl (TypeError msg)"
proof (cases xs)
  case Nil
  then show ?thesis by (simp add: call_starred_def)
next
  case (Cons x ys)
  then show ?thesis
    using lattice2projection_float[of logm x]
    by (cases ys) (auto simp: call_starred_def)
qed


lemma state2projection_length:
  assumes "default_bounds self" "length s = 6"
  shows "length (state2projection fl self (Some s)) = 6"
  using assms by (simp add: state2projection_def get_state_def default_bounds_def)

lemma projection2state_total:
  assumes "default_bounds self" "length q = 6"
  shows "\<exists>s. projection2state round_double self q = Inr s \<and> length s = 6"
proof -
  obtain a b c d e f where q: "q = [a, b, c, d, e, f]"
    using length6E[OF assms(2)] by blast
  show ?thesis
    using assms(1) unfolding q default_bounds_def
    by (simp add: projection2state_def rd_values)
qed


lemma cubic_source_step:
  "step round_double rejecting_engine () False cubic_source
     = Inr (cubic_source\<lparr>state := [1 / 2, 1 / 2, 1 / 2, 1 / 2, 1 / 2, 0]\<rparr>,
            [1 / 2, 1 / 2, 1 / 2, 1 / 2, 1 / 2, 0], (), False)"
  by (simp add: step_def rejecting_engine_def cubic_source_def state2projection_def get_state_def
        apply_projection_constraints_def upt6 constrained_element_def py_index_def
        and_then_def projection2state_def rd_0 rd_values)

lemma cubic_source_state2lattice:
  "state2lattice id diagonal_expm cubic_source None
     = Inr [[sqrt (exp (- 3)), sqrt (exp (- 3)), sqrt (exp (- 3))], [90, 90, 90]]"
  by (simp add: state2lattice_def cubic_source_def state2projection_def get_state_def
        apply_projection_constraints_def apply_lattice_constraints_def upt6
        constrained_element_def py_index_def and_then_def projection2lattice_def
        diagonal_expm_def B1_def B2_def B3_def B4_def B5_def B6_def Let_def)




subsection \<open>The claims\<close>

text \<open>
  C1: when the stepping engine returns \<open>valid = False\<close>, the previous state is left
  untouched and the re-projection is skipped, so the state after the step equals the
  state before. This fails: the method re-projects and stores the candidate whatever the
  flag is. In the cubic environment at the all-zero state, a rejected step that hands
  back the previous state commits \<open>[0.5, 0.5, 0.5, 0.5, 0.5, 0]\<close> (binary64 arithmetic,
  exact at these values).
\<close>

theorem rejected_step_counterexample:
  "init double_log3 CUBIC [0, 0, 0, 0, 0, 0] = Inr cubic_source \<and>
   state cubic_source = [0, 0, 0, 0, 0, 0] \<and>
   rejecting_engine cubic_source () False = (state cubic_source, (), False) \<and>
   step round_double rejecting_engine () False cubic_source
     = Inr (cubic_source\<lparr>state := [1 / 2, 1 / 2, 1 / 2, 1 / 2, 1 / 2, 0]\<rparr>,
            [1 / 2, 1 / 2, 1 / 2, 1 / 2, 1 / 2, 0], (), False) \<and>
   state (cubic_source\<lparr>state := [1 / 2, 1 / 2, 1 / 2, 1 / 2, 1 / 2, 0]\<rparr>) \<noteq> state cubic_source"
  using cubic_source_init[of double_log3] cubic_source_step
  by (simp add: rejecting_engine_def cubic_source_def)

text \<open>
  C1, as amended: when the stepping engine returns \<open>valid = False\<close> together with the
  previous state, the re-projection is not skipped: the step applies the projection-space
  constraints to the projection of the previous state, maps the result back to state
  space, stores it as the new state and returns it with the flag \<open>False\<close>. The state after
  the step is this re-projection of the state before, which need not equal it. Stated in
  binary64 arithmetic, for every lattice system.
\<close>

theorem rejected_step_reprojects:
  assumes "setup_constraints log3 self0 = Inr self"
    and "min_projection_values self0 = [- 3 / 2, - 3 / 2, - 3 / 2, - 9 / 2, - 3, - 3 / 2]"
    and "max_projection_values self0 = [3 / 2, 3 / 2, 3 / 2, 9 / 2, 3, 7]"
    and "cube_step self action backward = (state self, action', False)"
    and "length (state self) = 6"
  shows "\<exists>q s. apply_projection_constraints self (state2projection round_double self None) = Inr q \<and>
           projection2state round_double self q = Inr s \<and>
           step round_double cube_step action backward self
             = Inr (self\<lparr>state := s\<rparr>, s, action', False)"
proof -
  have wf: "tables_wf self" using assms(1) by (rule setup_constraints_tables_wf)
  have db: "default_bounds self"
    using setup_constraints_frame[OF assms(1)] assms(2,3) by (simp add: default_bounds_def)
  have same: "state2projection round_double self None
                = state2projection round_double self (Some (state self))"
    by (simp add: state2projection_def get_state_def)
  obtain q where q: "apply_projection_constraints self
       (state2projection round_double self (Some (state self))) = Inr q" "length q = 6"
    using apply_projection_constraints_total[OF wf state2projection_length[OF db assms(5)]]
    by blast
  obtain s where s: "projection2state round_double self q = Inr s"
    using projection2state_total[OF db q(2)] by blast
  have "step round_double cube_step action backward self
          = Inr (self\<lparr>state := s\<rparr>, s, action', False)"
    using assms(4) q(1) s by (simp add: step_def and_then_def)
  then show ?thesis using q(1) s same by auto
qed

theorem rejected_step_reprojects_witness:
  "setup_constraints double_log3 triclinic_midpoint = Inr triclinic_midpoint \<and>
   min_projection_values triclinic_midpoint = [- 3 / 2, - 3 / 2, - 3 / 2, - 9 / 2, - 3, - 3 / 2] \<and>
   max_projection_values triclinic_midpoint = [3 / 2, 3 / 2, 3 / 2, 9 / 2, 3, 7] \<and>
   rejecting_engine triclinic_midpoint () False = (state triclinic_midpoint, (), False) \<and>
   length (state triclinic_midpoint) = 6 \<and>
   apply_projection_constraints triclinic_midpoint
       (state2projection round_double triclinic_midpoint None)
     = Inr [0, 0, 0, 0, 0, 11 / 4] \<and>
   projection2state round_double triclinic_midpoint [0, 0, 0, 0, 0, 11 / 4]
     = Inr [1 / 2, 1 / 2, 1 / 2, 1 / 2, 1 / 2, 1 / 2] \<and>
   step round_double rejecting_engine () False triclinic_midpoint
     = Inr (triclinic_midpoint\<lparr>state := [1 / 2, 1 / 2, 1 / 2, 1 / 2, 1 / 2, 1 / 2]\<rparr>,
            [1 / 2, 1 / 2, 1 / 2, 1 / 2, 1 / 2, 1 / 2], (), False)"
proof -
  have mn: "min_projection_values triclinic_midpoint
              = [- 3 / 2, - 3 / 2, - 3 / 2, - 9 / 2, - 3, - 3 / 2]"
    and mx: "max_projection_values triclinic_midpoint = [3 / 2, 3 / 2, 3 / 2, 9 / 2, 3, 7]"
    and len: "length (state triclinic_midpoint) = 6"
    by (simp_all add: triclinic_midpoint_def)
  have eng: "rejecting_engine triclinic_midpoint () False = (state triclinic_midpoint, (), False)"
    by (simp add: rejecting_engine_def)
  have a: "apply_projection_constraints triclinic_midpoint
       (state2projection round_double triclinic_midpoint None)
     = Inr [0, 0, 0, 0, 0, 11 / 4]"
    by (simp add: triclinic_midpoint_def state2projection_def get_state_def
        apply_projection_constraints_def upt6 constrained_element_def py_index_def
        rd_0 rd_values)
  have b: "projection2state round_double triclinic_midpoint [0, 0, 0, 0, 0, 11 / 4]
     = Inr [1 / 2, 1 / 2, 1 / 2, 1 / 2, 1 / 2, 1 / 2]"
    by (simp add: triclinic_midpoint_def projection2state_def rd_0 rd_values)
  obtain q s where qs:
    "apply_projection_constraints triclinic_midpoint
       (state2projection round_double triclinic_midpoint None) = Inr q"
    "projection2state round_double triclinic_midpoint q = Inr s"
    "step round_double rejecting_engine () False triclinic_midpoint
       = Inr (triclinic_midpoint\<lparr>state := s\<rparr>, s, (), False)"
    using rejected_step_reprojects[where cube_step = rejecting_engine and action = "()"
        and backward = False, OF triclinic_midpoint_setup mn mx eng len] by blast
  then have "s = [1 / 2, 1 / 2, 1 / 2, 1 / 2, 1 / 2, 1 / 2]" using a b by simp
  then show ?thesis using qs(3) triclinic_midpoint_setup mn mx eng len a b by simp
qed




text \<open>
  C3: \<open>readable2state\<close> strips the parentheses and spaces, splits on commas, parses the
  floats and converts them to a state, so that \<open>state2readable\<close> after it reproduces the
  string \<open>"(4.0, 4.0, 4.0), (90.0, 90.0, 90.0)"\<close>. The code does not get that far: it
  passes the parsed values to \<open>_lattice2projection\<close> as starred positional arguments,
  while that method takes a single list (as \<open>parameters2state\<close> passes it), so the call
  raises TypeError on every input; no string is mapped to a state.
\<close>

theorem readable2state_raises:
  "(\<exists>e. readable2state fl pyfloat logm self readable = Inl e) \<and>
   readable2state fl example_float logm self ''(4.0, 4.0, 4.0), (90.0, 90.0, 90.0)''
     = Inl (TypeError ''takes 2 positional arguments but a different number were given'')"
proof
  show "\<exists>e. readable2state fl pyfloat logm self readable = Inl e"
    unfolding readable2state_def Let_def and_then_def
    using call_starred_lattice2projection[of logm]
    by (auto split: sum.splits) (metis Inl_Inr_False)
next
  show "readable2state fl example_float logm self ''(4.0, 4.0, 4.0), (90.0, 90.0, 90.0)''
     = Inl (TypeError ''takes 2 positional arguments but a different number were given'')"
    by (simp add: readable2state_def remove_char_def example_float_def and_then_def
        call_starred_def)
qed

text \<open>
  C4: under the triclinic system the state-to-projection map is the dimension-wise
  affine map \<open>projection[i] = min_p[i] + state[i] * (max_p[i] - min_p[i])\<close> over the bounds
  set by the constructor, and sends the midpoint state \<open>[0.5] * 6\<close> to
  \<open>[0, 0, 0, 0, 0, 2]\<close>. The last part fails: the last range is \<open>[-3/2, 7]\<close>, whose
  midpoint is \<open>11/4\<close>, in exact and in binary64 arithmetic alike.
\<close>

theorem state2projection_midpoint_counterexample:
  "init double_log3 TRICLINIC [1 / 2, 1 / 2, 1 / 2, 1 / 2, 1 / 2, 1 / 2] = Inr triclinic_midpoint \<and>
   state2projection round_double triclinic_midpoint
       (Some [1 / 2, 1 / 2, 1 / 2, 1 / 2, 1 / 2, 1 / 2])
     = [0, 0, 0, 0, 0, 11 / 4] \<and>
   state2projection id triclinic_midpoint (Some [1 / 2, 1 / 2, 1 / 2, 1 / 2, 1 / 2, 1 / 2])
     = [0, 0, 0, 0, 0, 11 / 4] \<and>
   [0, 0, 0, 0, 0, 11 / 4] \<noteq> [0, 0, 0, 0, 0, 2 :: real]"
  using triclinic_midpoint_init[of double_log3]
  by (simp add: state2projection_def get_state_def triclinic_midpoint_def rd_0 rd_values)

text \<open>
  C4, as amended: the midpoint state is mapped to \<open>[0, 0, 0, 0, 0, 2.75]\<close>; the affine
  formula and the bounds are as claimed. The formula is stated read exactly and with
  every operation rounded.
\<close>

theorem state2projection_midpoint:
  assumes "init log3 TRICLINIC source = Inr self"
  shows "min_projection_values self = [- 3 / 2, - 3 / 2, - 3 / 2, - 9 / 2, - 3, - 3 / 2] \<and>
         max_projection_values self = [3 / 2, 3 / 2, 3 / 2, 9 / 2, 3, 7] \<and>
         (\<forall>st. length st = 6 \<longrightarrow>
            length (state2projection id self (Some st)) = 6 \<and>
            (\<forall>i<6. state2projection id self (Some st) ! i =
               min_projection_values self ! i +
               st ! i * (max_projection_values self ! i - min_projection_values self ! i))) \<and>
         (\<forall>fl st. length st = 6 \<longrightarrow>
            length (state2projection fl self (Some st)) = 6 \<and>
            (\<forall>i<6. state2projection fl self (Some st) ! i =
               fl (min_projection_values self ! i +
                   fl (st ! i *
                       fl (max_projection_values self ! i - min_projection_values self ! i))))) \<and>
         state2projection id self (Some [1 / 2, 1 / 2, 1 / 2, 1 / 2, 1 / 2, 1 / 2])
           = [0, 0, 0, 0, 0, 11 / 4] \<and>
         state2projection round_double self (Some [1 / 2, 1 / 2, 1 / 2, 1 / 2, 1 / 2, 1 / 2])
           = [0, 0, 0, 0, 0, 11 / 4]"
proof -
  have b: "min_projection_values self = [- 3 / 2, - 3 / 2, - 3 / 2, - 9 / 2, - 3, - 3 / 2]"
    "max_projection_values self = [3 / 2, 3 / 2, 3 / 2, 9 / 2, 3, 7]"
    using assms setup_constraints_frame unfolding init_def by fastforce+
  have g: "length (state2projection fl self (Some st)) = 6 \<and>
            (\<forall>i<6. state2projection fl self (Some st) ! i =
               fl (min_projection_values self ! i +
                   fl (st ! i *
                       fl (max_projection_values self ! i - min_projection_values self ! i))))"
    if "length st = 6" for st fl
    using that b by (auto simp: state2projection_def get_state_def less6)
  have e: "length (state2projection id self (Some st)) = 6 \<and>
            (\<forall>i<6. state2projection id self (Some st) ! i =
               min_projection_values self ! i +
               st ! i * (max_projection_values self ! i - min_projection_values self ! i))"
    if "length st = 6" for st
    using g[OF that, of id] by simp
  have m1: "state2projection id self (Some [1 / 2, 1 / 2, 1 / 2, 1 / 2, 1 / 2, 1 / 2])
           = [0, 0, 0, 0, 0, 11 / 4]"
    using b by (simp add: state2projection_def get_state_def)
  have m2: "state2projection round_double self (Some [1 / 2, 1 / 2, 1 / 2, 1 / 2, 1 / 2, 1 / 2])
           = [0, 0, 0, 0, 0, 11 / 4]"
    using b by (simp add: state2projection_def get_state_def rd_0 rd_values)
  show ?thesis using b g e m1 m2 by blast
qed

theorem state2projection_midpoint_witness:
  "init double_log3 TRICLINIC [1 / 2, 1 / 2, 1 / 2, 1 / 2, 1 / 2, 1 / 2] = Inr triclinic_midpoint \<and>
   length [1 / 4, 1 / 2, 1 / 2, 1 / 2, 1 / 2, 1 :: real] = 6 \<and>
   state2projection id triclinic_midpoint (Some [1 / 4, 1 / 2, 1 / 2, 1 / 2, 1 / 2, 1]) ! 0
     = - 3 / 2 + 1 / 4 * (3 / 2 - (- 3 / 2)) \<and>
   state2projection id triclinic_midpoint (Some [1 / 4, 1 / 2, 1 / 2, 1 / 2, 1 / 2, 1]) ! 5
     = - 3 / 2 + 1 * (7 - (- 3 / 2)) \<and>
   state2projection round_double triclinic_midpoint (Some [1 / 4, 1 / 2, 1 / 2, 1 / 2, 1 / 2, 1]) ! 5
     = round_double (- 3 / 2 + round_double (1 * round_double (7 - (- 3 / 2)))) \<and>
   state2projection id triclinic_midpoint (Some [1 / 2, 1 / 2, 1 / 2, 1 / 2, 1 / 2, 1 / 2])
     = [0, 0, 0, 0, 0, 11 / 4] \<and>
   state2projection round_double triclinic_midpoint
       (Some [1 / 2, 1 / 2, 1 / 2, 1 / 2, 1 / 2, 1 / 2])
     = [0, 0, 0, 0, 0, 11 / 4]"
proof -
  have len: "length [1 / 4, 1 / 2, 1 / 2, 1 / 2, 1 / 2, 1 :: real] = 6" by simp
  have b: "min_projection_values triclinic_midpoint
             = [- 3 / 2, - 3 / 2, - 3 / 2, - 9 / 2, - 3, - 3 / 2]"
    "max_projection_values triclinic_midpoint = [3 / 2, 3 / 2, 3 / 2, 9 / 2, 3, 7]"
    by (simp_all add: triclinic_midpoint_def)
  note t = state2projection_midpoint[OF triclinic_midpoint_init[of double_log3]]
  have e: "\<forall>i<6. state2projection id triclinic_midpoint
                    (Some [1 / 4, 1 / 2, 1 / 2, 1 / 2, 1 / 2, 1]) ! i =
               min_projection_values triclinic_midpoint ! i +
               [1 / 4, 1 / 2, 1 / 2, 1 / 2, 1 / 2, 1] ! i *
                 (max_projection_values triclinic_midpoint ! i
                    - min_projection_values triclinic_midpoint ! i)"
    using t len by blast
  have g: "\<forall>i<6. state2projection round_double triclinic_midpoint
                    (Some [1 / 4, 1 / 2, 1 / 2, 1 / 2, 1 / 2, 1]) ! i =
               round_double (min_projection_values triclinic_midpoint ! i +
                 round_double ([1 / 4, 1 / 2, 1 / 2, 1 / 2, 1 / 2, 1] ! i *
                   round_double (max_projection_values triclinic_midpoint ! i
                      - min_projection_values triclinic_midpoint ! i)))"
    using t len by blast
  have "state2projection id triclinic_midpoint (Some [1 / 4, 1 / 2, 1 / 2, 1 / 2, 1 / 2, 1]) ! 0
          = - 3 / 2 + 1 / 4 * (3 / 2 - (- 3 / 2))"
    and "state2projection id triclinic_midpoint (Some [1 / 4, 1 / 2, 1 / 2, 1 / 2, 1 / 2, 1]) ! 5
          = - 3 / 2 + 1 * (7 - (- 3 / 2))"
    and "state2projection round_double triclinic_midpoint
           (Some [1 / 4, 1 / 2, 1 / 2, 1 / 2, 1 / 2, 1]) ! 5
          = round_double (- 3 / 2 + round_double (1 * round_double (7 - (- 3 / 2))))"
    using e g b by simp_all
  moreover have "state2projection id triclinic_midpoint
         (Some [1 / 2, 1 / 2, 1 / 2, 1 / 2, 1 / 2, 1 / 2]) = [0, 0, 0, 0, 0, 11 / 4]"
    and "state2projection round_double triclinic_midpoint
         (Some [1 / 2, 1 / 2, 1 / 2, 1 / 2, 1 / 2, 1 / 2]) = [0, 0, 0, 0, 0, 11 / 4]"
    using t by blast+
  ultimately show ?thesis using triclinic_midpoint_init[of double_log3] len by simp
qed

text \<open>
  C5: constraint-table construction for the hexagonal and the rhombohedral system
  yields exactly the rows of the specification's table: with \<open>ln 3\<close> for the value of
  \<open>numpy.log(3)\<close>, and with any other value in its place.
\<close>

theorem setup_constraints_hexagonal_rhombohedral:
  "setup_constraints (ln 3) (self\<lparr>lattice_system := HEXAGONAL\<rparr>) =
     Inr (self\<lparr>lattice_system := HEXAGONAL,
              ignored_dims := [True, True, True, True, False, False],
              projection_tied_values := [None, None, None, None, None, None],
              projection_fixed_values := [Some (- ln 3 / 4), Some 0, Some 0, Some 0, None, None],
              lattice_params_tied_values := [None, Some 0, None, None, None, None],
              lattice_params_fixed_values := [None, None, None, Some 90, Some 90, Some 120]\<rparr>) \<and>
   setup_constraints log3 (self\<lparr>lattice_system := HEXAGONAL\<rparr>) =
     Inr (self\<lparr>lattice_system := HEXAGONAL,
              ignored_dims := [True, True, True, True, False, False],
              projection_tied_values := [None, None, None, None, None, None],
              projection_fixed_values := [Some (- log3 / 4), Some 0, Some 0, Some 0, None, None],
              lattice_params_tied_values := [None, Some 0, None, None, None, None],
              lattice_params_fixed_values := [None, None, None, Some 90, Some 90, Some 120]\<rparr>) \<and>
   setup_constraints log3 (self\<lparr>lattice_system := RHOMBOHEDRAL\<rparr>) =
     Inr (self\<lparr>lattice_system := RHOMBOHEDRAL,
              ignored_dims := [False, True, True, True, True, False],
              projection_tied_values := [None, Some 0, Some 0, None, None, None],
              projection_fixed_values := [None, None, None, Some 0, Some 0, None],
              lattice_params_tied_values := [None, Some 0, Some 0, None, Some 3, Some 3],
              lattice_params_fixed_values := [None, None, None, None, None, None]\<rparr>)"
  by (simp add: setup_constraints_def set_tables_def system_names replicate6)

text \<open>
  C6: for every lattice system and every six-dimensional state, in the sextuple returned
  by \<open>state2lattice\<close> every dimension with a fixed value in the lattice-space table equals
  that constant and every dimension with a tied index equals the value at its tie target;
  under the cubic system \<open>a = b = c\<close> and \<open>alpha = beta = gamma = 90\<close>. The matrix
  exponential and the rounding are arbitrary.
\<close>

theorem state2lattice_constraints_exact:
  assumes "setup_constraints log3 self0 = Inr self"
    and "min_projection_values self0 = [- 3 / 2, - 3 / 2, - 3 / 2, - 9 / 2, - 3, - 3 / 2]"
    and "max_projection_values self0 = [3 / 2, 3 / 2, 3 / 2, 9 / 2, 3, 7]"
    and "length (get_state self st) = 6"
  shows "\<exists>a b c alpha beta gamma.
           state2lattice fl expm self st = Inr [[a, b, c], [alpha, beta, gamma]] \<and>
           (\<forall>i<6.
              (\<forall>x. lattice_params_fixed_values self ! i = Some x \<longrightarrow>
                     [a, b, c, alpha, beta, gamma] ! i = x) \<and>
              (\<forall>j. lattice_params_tied_values self ! i = Some j \<longrightarrow>
                     [a, b, c, alpha, beta, gamma] ! i = [a, b, c, alpha, beta, gamma] ! j)) \<and>
           (lattice_system self = CUBIC \<longrightarrow>
              a = b \<and> b = c \<and> alpha = 90 \<and> beta = 90 \<and> gamma = 90)"
proof -
  let ?F = "lattice_params_fixed_values self" and ?T = "lattice_params_tied_values self"
  have wf: "tables_wf self" using assms(1) by (rule setup_constraints_tables_wf)
  have db: "default_bounds self"
    using setup_constraints_frame[OF assms(1)] assms(2,3) by (simp add: default_bounds_def)
  obtain q where q: "apply_projection_constraints self
       (state2projection fl self (Some (get_state self st))) = Inr q" "length q = 6"
    using apply_projection_constraints_total[OF wf state2projection_length[OF db assms(4)]]
    by blast
  obtain l where l: "projection2lattice expm q = Inr l" "length l = 6"
    using projection2lattice_total[OF q(2)] by blast
  obtain out where out: "apply_lattice_constraints self l = Inr out" "length out = 6"
    and res: "\<forall>k<6. out ! k = resolved ?F ?T l out k"
    using apply_lattice_constraints_total[OF wf l(2)] by blast
  obtain a b c alpha beta gamma where o: "out = [a, b, c, alpha, beta, gamma]"
    using length6E[OF out(2)] by blast
  have run: "state2lattice fl expm self st = Inr [[a, b, c], [alpha, beta, gamma]]"
    using q(1) l(1) out(1) by (simp add: state2lattice_def and_then_def o)
  have fx: "out ! i = x" if "i < 6" "?F ! i = Some x" for i x
    using res that by (simp add: resolved_def)
  have td: "out ! i = out ! j" if "i < 6" "?T ! i = Some j" for i j
  proof -
    have "?F ! i = None" using setup_constraints_no_overlap[OF assms(1) that(1)] that(2) by blast
    then show ?thesis using res that by (simp add: resolved_def)
  qed
  have cub: "a = b \<and> b = c \<and> alpha = 90 \<and> beta = 90 \<and> gamma = 90" if "lattice_system self = CUBIC"
  proof -
    have t: "?T = [None, Some 0, Some 0, None, None, None]"
      and f: "?F = [None, None, None, Some 90, Some 90, Some 90]"
      using setup_constraints_cubic[OF assms(1) that] by simp_all
    have "out ! 1 = out ! 0" "out ! 2 = out ! 0" using td[of 1 0] td[of 2 0] t by simp_all
    moreover have "out ! 3 = 90" "out ! 4 = 90" "out ! 5 = 90"
      using fx[of 3 90] fx[of 4 90] fx[of 5 90] f by simp_all
    ultimately show ?thesis by (simp add: o)
  qed
  show ?thesis using run fx td cub unfolding o by blast
qed

theorem state2lattice_constraints_exact_witness:
  "setup_constraints double_log3 cubic_source = Inr cubic_source \<and>
   min_projection_values cubic_source = [- 3 / 2, - 3 / 2, - 3 / 2, - 9 / 2, - 3, - 3 / 2] \<and>
   max_projection_values cubic_source = [3 / 2, 3 / 2, 3 / 2, 9 / 2, 3, 7] \<and>
   length (get_state cubic_source None) = 6 \<and>
   lattice_system cubic_source = CUBIC \<and>
   lattice_params_fixed_values cubic_source ! 3 = Some 90 \<and>
   lattice_params_tied_values cubic_source ! 1 = Some 0 \<and>
   state2lattice id diagonal_expm cubic_source None
     = Inr [[sqrt (exp (- 3)), sqrt (exp (- 3)), sqrt (exp (- 3))], [90, 90, 90]]"
proof -
  have mn: "min_projection_values cubic_source
              = [- 3 / 2, - 3 / 2, - 3 / 2, - 9 / 2, - 3, - 3 / 2]"
    and mx: "max_projection_values cubic_source = [3 / 2, 3 / 2, 3 / 2, 9 / 2, 3, 7]"
    and len: "length (get_state cubic_source None) = 6"
    and sys: "lattice_system cubic_source = CUBIC"
    and f3: "lattice_params_fixed_values cubic_source ! 3 = Some 90"
    and t1: "lattice_params_tied_values cubic_source ! 1 = Some 0"
    by (simp_all add: cubic_source_def get_state_def)
  show ?thesis
    using state2lattice_constraints_exact[OF cubic_source_setup mn mx len, of id diagonal_expm]
      cubic_source_state2lattice cubic_source_setup mn mx len sys f3 t1
    by simp
qed

text \<open>
  C7: for every lattice system, and more generally for every table whose tie targets
  have lower indices, both constraint-application functions return (no exception) on a
  six-dimensional input, and dimension \<open>i\<close> of the output is the fixed value when one is
  set, else the output value already resolved at the tied index, else the input value.
\<close>

theorem apply_constraints_precedence:
  assumes "length v = 6"
  shows "(setup_constraints log3 self0 = Inr self \<longrightarrow>
            follows_precedence (projection_fixed_values self) (projection_tied_values self) v
              (apply_projection_constraints self v) \<and>
            follows_precedence (lattice_params_fixed_values self)
              (lattice_params_tied_values self) v (apply_lattice_constraints self v)) \<and>
         (tables_wf self' \<longrightarrow>
            follows_precedence (projection_fixed_values self') (projection_tied_values self') v
              (apply_projection_constraints self' v) \<and>
            follows_precedence (lattice_params_fixed_values self')
              (lattice_params_tied_values self') v (apply_lattice_constraints self' v))"
proof -
  have wf: "tables_wf s \<Longrightarrow>
      follows_precedence (projection_fixed_values s) (projection_tied_values s) v
        (apply_projection_constraints s v) \<and>
      follows_precedence (lattice_params_fixed_values s) (lattice_params_tied_values s) v
        (apply_lattice_constraints s v)" for s
    unfolding apply_projection_constraints_def apply_lattice_constraints_def
    using follows_precedence_total[OF _ _ _ assms] by (simp add: tables_wf_def)
  show ?thesis using wf setup_constraints_tables_wf by blast
qed

theorem apply_constraints_precedence_witness:
  "length [1, 2, 3, 4, 5, 6 :: real] = 6 \<and>
   setup_constraints double_log3 rhombohedral_env = Inr rhombohedral_env \<and>
   tables_wf rhombohedral_env \<and>
   apply_projection_constraints rhombohedral_env [1, 2, 3, 4, 5, 6] = Inr [1, 1, 1, 0, 0, 6] \<and>
   apply_lattice_constraints rhombohedral_env [1, 2, 3, 4, 5, 6] = Inr [1, 1, 1, 4, 4, 4] \<and>
   follows_precedence (projection_fixed_values rhombohedral_env)
     (projection_tied_values rhombohedral_env) [1, 2, 3, 4, 5, 6]
     (apply_projection_constraints rhombohedral_env [1, 2, 3, 4, 5, 6]) \<and>
   follows_precedence (lattice_params_fixed_values rhombohedral_env)
     (lattice_params_tied_values rhombohedral_env) [1, 2, 3, 4, 5, 6]
     (apply_lattice_constraints rhombohedral_env [1, 2, 3, 4, 5, 6])"
proof -
  have len: "length [1, 2, 3, 4, 5, 6 :: real] = 6" by simp
  have wf: "tables_wf rhombohedral_env"
    by (simp add: tables_wf_def ties_lower_def rhombohedral_env_def upt6)
  have p: "apply_projection_constraints rhombohedral_env [1, 2, 3, 4, 5, 6] = Inr [1, 1, 1, 0, 0, 6]"
    by (simp add: apply_projection_constraints_def rhombohedral_env_def upt6
          constrained_element_def py_index_def)
  have l: "apply_lattice_constraints rhombohedral_env [1, 2, 3, 4, 5, 6] = Inr [1, 1, 1, 4, 4, 4]"
    by (simp add: apply_lattice_constraints_def rhombohedral_env_def upt6
          constrained_element_def py_index_def)
  show ?thesis
    using apply_constraints_precedence[OF len, of double_log3 rhombohedral_env rhombohedral_env
        rhombohedral_env]
      rhombohedral_env_setup wf p l len by simp
qed

text \<open>
  C8: for every lattice system and every six-dimensional vector, applying
  \<open>apply_projection_constraints\<close> (or \<open>apply_lattice_constraints\<close>) to its own output
  returns that output again.
\<close>

theorem apply_constraints_idempotent:
  assumes "setup_constraints log3 self0 = Inr self" and "length v = 6"
  shows "(\<exists>out. apply_projection_constraints self v = Inr out \<and>
               and_then (apply_projection_constraints self v) (apply_projection_constraints self)
                 = Inr out) \<and>
         (\<exists>out. apply_lattice_constraints self v = Inr out \<and>
               and_then (apply_lattice_constraints self v) (apply_lattice_constraints self)
                 = Inr out)"
proof -
  have wf: "tables_wf self" using assms(1) by (rule setup_constraints_tables_wf)
  obtain p where p: "apply_projection_constraints self v = Inr p"
    using constraint_loop_total[of "projection_fixed_values self" "projection_tied_values self" v]
      wf assms(2) by (auto simp: tables_wf_def apply_projection_constraints_def)
  have pp: "apply_projection_constraints self p = Inr p"
    using constraint_loop_idem[of "projection_fixed_values self" "projection_tied_values self" v p]
      wf assms(2) p by (simp add: tables_wf_def apply_projection_constraints_def)
  obtain l where l: "apply_lattice_constraints self v = Inr l"
    using constraint_loop_total[of "lattice_params_fixed_values self"
        "lattice_params_tied_values self" v]
      wf assms(2) by (auto simp: tables_wf_def apply_lattice_constraints_def)
  have ll: "apply_lattice_constraints self l = Inr l"
    using constraint_loop_idem[of "lattice_params_fixed_values self"
        "lattice_params_tied_values self" v l]
      wf assms(2) l by (simp add: tables_wf_def apply_lattice_constraints_def)
  show ?thesis using p pp l ll by (simp add: and_then_def)
qed

theorem apply_constraints_idempotent_witness:
  "setup_constraints double_log3 rhombohedral_env = Inr rhombohedral_env \<and>
   length [7, 2, 3, 50, 60, 70 :: real] = 6 \<and>
   apply_projection_constraints rhombohedral_env [7, 2, 3, 50, 60, 70] = Inr [7, 7, 7, 0, 0, 70] \<and>
   apply_projection_constraints rhombohedral_env [7, 7, 7, 0, 0, 70] = Inr [7, 7, 7, 0, 0, 70] \<and>
   apply_lattice_constraints rhombohedral_env [7, 2, 3, 50, 60, 70] = Inr [7, 7, 7, 50, 50, 50] \<and>
   apply_lattice_constraints rhombohedral_env [7, 7, 7, 50, 50, 50] = Inr [7, 7, 7, 50, 50, 50]"
proof -
  have len: "length [7, 2, 3, 50, 60, 70 :: real] = 6" by simp
  have p: "apply_projection_constraints rhombohedral_env [7, 2, 3, 50, 60, 70] = Inr [7, 7, 7, 0, 0, 70]"
    by (simp add: apply_projection_constraints_def rhombohedral_env_def upt6
          constrained_element_def py_index_def)
  have l: "apply_lattice_constraints rhombohedral_env [7, 2, 3, 50, 60, 70] = Inr [7, 7, 7, 50, 50, 50]"
    by (simp add: apply_lattice_constraints_def rhombohedral_env_def upt6
          constrained_element_def py_index_def)
  show ?thesis
    using apply_constraints_idempotent[OF rhombohedral_env_setup len] rhombohedral_env_setup p l
    by (simp add: and_then_def)
qed

text \<open>
  C9: for every name that is not one of the seven lattice systems, constraint-table
  construction raises ValueError, both from the constructor and from
  \<open>set_lattice_system\<close>; neither catches the exception or tries again.
\<close>

theorem invalid_lattice_system_raises:
  assumes "name \<notin> {TRICLINIC, MONOCLINIC, ORTHORHOMBIC, TETRAGONAL, HEXAGONAL, RHOMBOHEDRAL, CUBIC}"
  shows "setup_constraints log3 (self\<lparr>lattice_system := name\<rparr>) =
           Inl (ValueError (name @ '' is not a valid lattice system'')) \<and>
         init log3 name source = Inl (ValueError (name @ '' is not a valid lattice system'')) \<and>
         set_lattice_system log3 name self =
           (self\<lparr>lattice_system := name\<rparr>,
            Some (ValueError (name @ '' is not a valid lattice system'')))"
  using assms by (simp add: setup_constraints_def init_def set_lattice_system_def)

theorem invalid_lattice_system_raises_witness:
  "''quasicrystal'' \<notin> {TRICLINIC, MONOCLINIC, ORTHORHOMBIC, TETRAGONAL, HEXAGONAL, RHOMBOHEDRAL, CUBIC} \<and>
   setup_constraints double_log3 (rhombohedral_env\<lparr>lattice_system := ''quasicrystal''\<rparr>) =
     Inl (ValueError ''quasicrystal is not a valid lattice system'') \<and>
   init double_log3 ''quasicrystal'' [0, 0, 0, 0, 0, 0] =
     Inl (ValueError ''quasicrystal is not a valid lattice system'') \<and>
   set_lattice_system double_log3 ''quasicrystal'' rhombohedral_env =
     (rhombohedral_env\<lparr>lattice_system := ''quasicrystal''\<rparr>,
      Some (ValueError ''quasicrystal is not a valid lattice system''))"
proof -
  have n: "''quasicrystal'' \<notin> {TRICLINIC, MONOCLINIC, ORTHORHOMBIC, TETRAGONAL, HEXAGONAL, RHOMBOHEDRAL, CUBIC}"
    by (simp add: system_names)
  show ?thesis
    using invalid_lattice_system_raises[OF n, of double_log3 rhombohedral_env "[0, 0, 0, 0, 0, 0]"] n
    by simp
qed

text \<open>
  C10: for every lattice system, two six-dimensional inputs that agree on every
  dimension with neither a fixed value nor a tied index are mapped to the same output by
  \<open>apply_projection_constraints\<close>, and likewise by \<open>apply_lattice_constraints\<close>.
\<close>

theorem apply_constraints_noninterference:
  assumes "setup_constraints log3 self0 = Inr self" and "length v = 6" and "length v' = 6"
  shows "(agree_on_free (projection_fixed_values self) (projection_tied_values self) v v' \<longrightarrow>
            apply_projection_constraints self v = apply_projection_constraints self v') \<and>
         (agree_on_free (lattice_params_fixed_values self) (lattice_params_tied_values self) v v' \<longrightarrow>
            apply_lattice_constraints self v = apply_lattice_constraints self v')"
proof -
  have wf: "tables_wf self" using assms(1) by (rule setup_constraints_tables_wf)
  have g: "length fixed = 6 \<Longrightarrow> length tied = 6 \<Longrightarrow> ties_lower tied \<Longrightarrow>
        agree_on_free fixed tied v v' \<Longrightarrow>
        constraint_loop fixed tied v [0..<length tied] [] =
        constraint_loop fixed tied v' [0..<length tied] []" for fixed tied
    using constraint_loop_noninterference[of fixed tied v v'] assms(2,3)
    by (simp add: agree_on_free_def list_all_iff)
  show ?thesis
    using wf g[of "projection_fixed_values self" "projection_tied_values self"]
      g[of "lattice_params_fixed_values self" "lattice_params_tied_values self"]
    by (simp add: tables_wf_def apply_projection_constraints_def apply_lattice_constraints_def)
qed

theorem apply_constraints_noninterference_witness:
  "setup_constraints double_log3 rhombohedral_env = Inr rhombohedral_env \<and>
   length [7, 2, 3, 50, 60, 70 :: real] = 6 \<and> length [7, 8, 9, 10, 1, 70 :: real] = 6 \<and>
   length [7, 8, 9, 50, 1, 2 :: real] = 6 \<and>
   agree_on_free (projection_fixed_values rhombohedral_env)
     (projection_tied_values rhombohedral_env) [7, 2, 3, 50, 60, 70] [7, 8, 9, 10, 1, 70] \<and>
   apply_projection_constraints rhombohedral_env [7, 2, 3, 50, 60, 70] =
     apply_projection_constraints rhombohedral_env [7, 8, 9, 10, 1, 70] \<and>
   agree_on_free (lattice_params_fixed_values rhombohedral_env)
     (lattice_params_tied_values rhombohedral_env) [7, 2, 3, 50, 60, 70] [7, 8, 9, 50, 1, 2] \<and>
   apply_lattice_constraints rhombohedral_env [7, 2, 3, 50, 60, 70] =
     apply_lattice_constraints rhombohedral_env [7, 8, 9, 50, 1, 2]"
proof -
  have len: "length [7, 2, 3, 50, 60, 70 :: real] = 6" "length [7, 8, 9, 10, 1, 70 :: real] = 6"
    "length [7, 8, 9, 50, 1, 2 :: real] = 6" by simp_all
  have a1: "agree_on_free (projection_fixed_values rhombohedral_env)
     (projection_tied_values rhombohedral_env) [7, 2, 3, 50, 60, 70] [7, 8, 9, 10, 1, 70]"
    by (simp add: agree_on_free_def rhombohedral_env_def upt6)
  have a2: "agree_on_free (lattice_params_fixed_values rhombohedral_env)
     (lattice_params_tied_values rhombohedral_env) [7, 2, 3, 50, 60, 70] [7, 8, 9, 50, 1, 2]"
    by (simp add: agree_on_free_def rhombohedral_env_def upt6)
  show ?thesis
    using apply_constraints_noninterference[OF rhombohedral_env_setup len(1) len(2)]
      apply_constraints_noninterference[OF rhombohedral_env_setup len(1) len(3)]
      rhombohedral_env_setup a1 a2 by simp
qed

end
